theory Spec2Isabelle
  imports Complex_Main "HOL-Library.Word"
begin

section \<open>Python values and exceptions\<close>

text \<open>
  The program is the single script \<^verbatim>\<open>app.py\<close>: a Streamlit page that records audio,
  hands it to the Deepgram client and shows the transcript. Everything the script gets
  from outside (the secrets store, the audio widget, the button, the answer of the
  service) is an input of the model; everything it does to the outside (page elements,
  calls of the client) is written to an explicit state.
\<close>

type_synonym byte = "8 word"

text \<open>
  A float of a decoded JSON document: a finite value, or one of the three special
  values that Python's decoder also accepts.
\<close>

datatype py_float = Finite rat | PosInf | NegInf | NaN

text \<open>
  The objects a decoded JSON document consists of. \<open>PNone\<close> is Python's \<^verbatim>\<open>None\<close>,
  a \<open>PStr\<close> holds the UTF-8 bytes of a \<^verbatim>\<open>str\<close>, a \<open>PDict\<close> is a dict with
  \<^verbatim>\<open>str\<close> keys given by its items (looked up with \<open>map_of\<close>).
\<close>

datatype py_val =
    PNone
  | PBool bool
  | PInt int
  | PFloat py_float
  | PStr string
  | PList "py_val list"
  | PDict "(string \<times> py_val) list"

text \<open>
  A raised exception object: the name of its class, whether the class derives from
  \<^verbatim>\<open>Exception\<close> (\<^verbatim>\<open>KeyboardInterrupt\<close>, \<^verbatim>\<open>SystemExit\<close> and
  \<^verbatim>\<open>asyncio.CancelledError\<close> derive from \<^verbatim>\<open>BaseException\<close> only), and the
  text \<^verbatim>\<open>str(e)\<close>.
\<close>

record py_exc =
  exc_class :: string
  is_Exception :: bool
  exc_str :: string

definition quoted :: "string \<Rightarrow> string" where
  \<comment> \<open>\<^verbatim>\<open>repr\<close> of a \<^verbatim>\<open>str\<close> of letters: the text between single quotes\<close>
  "quoted s = CHR 0x27 # s @ [CHR 0x27]"

definition KeyError :: "string \<Rightarrow> py_exc" where
  \<comment> \<open>\<^verbatim>\<open>str(KeyError(k))\<close> is \<^verbatim>\<open>repr(k)\<close>, passed here\<close>
  "KeyError key_repr = \<lparr>exc_class = ''KeyError'', is_Exception = True, exc_str = key_repr\<rparr>"

definition IndexError :: "string \<Rightarrow> py_exc" where
  "IndexError msg = \<lparr>exc_class = ''IndexError'', is_Exception = True, exc_str = msg\<rparr>"

definition TypeError :: "string \<Rightarrow> py_exc" where
  "TypeError msg = \<lparr>exc_class = ''TypeError'', is_Exception = True, exc_str = msg\<rparr>"

definition AttributeError :: "string \<Rightarrow> py_exc" where
  "AttributeError msg =
     \<lparr>exc_class = ''AttributeError'', is_Exception = True, exc_str = msg\<rparr>"

fun type_name :: "py_val \<Rightarrow> string" where
  "type_name PNone = ''NoneType''"
| "type_name (PBool b) = ''bool''"
| "type_name (PInt i) = ''int''"
| "type_name (PFloat x) = ''float''"
| "type_name (PStr s) = ''str''"
| "type_name (PList xs) = ''list''"
| "type_name (PDict kvs) = ''dict''"

definition not_subscriptable :: "py_val \<Rightarrow> py_exc" where
  "not_subscriptable v = TypeError (quoted (type_name v) @ '' object is not subscriptable'')"

text \<open>
  \<^verbatim>\<open>obj[key]\<close> with a \<^verbatim>\<open>str\<close> key, as in \<^verbatim>\<open>response["results"]\<close>: a dict
  gives the value or raises \<^verbatim>\<open>KeyError\<close>, a list or a string raises
  \<^verbatim>\<open>TypeError\<close> (wording of CPython 3.11), and nothing else is subscriptable.
\<close>

fun getitem_key :: "py_val \<Rightarrow> string \<Rightarrow> py_exc + py_val" where
  "getitem_key (PDict kvs) k =
     (case map_of kvs k of None \<Rightarrow> Inl (KeyError (quoted k)) | Some v \<Rightarrow> Inr v)"
| "getitem_key (PList xs) k =
     Inl (TypeError ''list indices must be integers or slices, not str'')"
| "getitem_key (PStr s) k =
     Inl (TypeError (''string indices must be integers, not '' @ quoted ''str''))"
| "getitem_key v k = Inl (not_subscriptable v)"

text \<open>
  The first code point of a non-empty \<^verbatim>\<open>str\<close>: its leading byte and the
  continuation bytes (\<open>0x80\<close> to \<open>0xBF\<close>) that follow it.
\<close>

definition is_continuation :: "char \<Rightarrow> bool" where
  "is_continuation c \<longleftrightarrow> 0x80 \<le> (of_char c :: nat) \<and> (of_char c :: nat) < 0xC0"

text \<open>
  \<^verbatim>\<open>obj[0]\<close>: the first element of a list, the first character of a string
  (\<^verbatim>\<open>IndexError\<close> when empty); a dict of a JSON document has no key \<^verbatim>\<open>0\<close>.
\<close>

fun getitem_0 :: "py_val \<Rightarrow> py_exc + py_val" where
  "getitem_0 (PList xs) =
     (case xs of [] \<Rightarrow> Inl (IndexError ''list index out of range'') | x # _ \<Rightarrow> Inr x)"
| "getitem_0 (PStr s) =
     (case s of [] \<Rightarrow> Inl (IndexError ''string index out of range'')
      | c # cs \<Rightarrow> Inr (PStr (c # takeWhile is_continuation cs)))"
| "getitem_0 (PDict kvs) = Inl (KeyError ''0'')"
| "getitem_0 v = Inl (not_subscriptable v)"

text \<open>The truth value of an object, as \<^verbatim>\<open>if transcript:\<close> takes it.\<close>

fun truthy :: "py_val \<Rightarrow> bool" where
  "truthy PNone = False"
| "truthy (PBool b) = b"
| "truthy (PInt i) = (i \<noteq> 0)"
| "truthy (PFloat x) = (x \<noteq> Finite 0)"
| "truthy (PStr s) = (s \<noteq> [])"
| "truthy (PList xs) = (xs \<noteq> [])"
| "truthy (PDict kvs) = (kvs \<noteq> [])"

text \<open>Sequencing of steps that may raise: the first exception ends the sequence.\<close>

fun and_then :: "'e + 'a \<Rightarrow> ('a \<Rightarrow> 'e + 'b) \<Rightarrow> 'e + 'b" where
  "and_then (Inl e) f = Inl e"
| "and_then (Inr x) f = f x"

section \<open>The outside world\<close>

text \<open>
  The elements a run of the script puts on the page, in the order of the calls.
  \<open>Info\<close> takes the object passed to \<^verbatim>\<open>st.info\<close>, which for the transcript is
  whatever the client returned. \<open>Spinner\<close> and \<open>Spinner_exit\<close> are entry to and exit
  from the \<^verbatim>\<open>with st.spinner(...)\<close> block.
\<close>

datatype ui_event =
    Set_page_config string string
  | Title string
  | Write string
  | Markdown string
  | Subheader string
  | Audio_input string string
  | Audio "byte list" string
  | is_Button: Button string bool
  | Spinner string
  | Spinner_exit
  | is_Info: Info py_val
  | is_Success: Success string
  | is_Warning: Warning string
  | is_Error: Error string

text \<open>The audio source and the call that the Deepgram client receives.\<close>

record source =
  buffer :: "byte list"
  mimetype :: string

record request =
  api_key :: string
  audio_source :: source
  options :: "(string \<times> py_val) list"

text \<open>
  The state outside the script: the page rendered so far and the calls of
  \<^verbatim>\<open>dg_client.transcription.prerecorded\<close> made so far.
\<close>

record world =
  ui :: "ui_event list"
  net :: "request list"

text \<open>
  The secrets store as \<^verbatim>\<open>st.secrets\<close> finds it: the entries of a
  \<^verbatim>\<open>secrets.toml\<close>, or no such file. Without a file, \<^verbatim>\<open>st.secrets[...]\<close>
  raises the given exception: a \<^verbatim>\<open>FileNotFoundError\<close> (in later versions of
  Streamlit its subclass \<^verbatim>\<open>StreamlitSecretNotFoundError\<close>), which is not a
  \<^verbatim>\<open>KeyError\<close>. With a file, a key that it does not have raises \<^verbatim>\<open>KeyError\<close>.
\<close>

datatype secrets_store = No_secrets_file py_exc | Secrets_toml "string \<rightharpoonup> string"

text \<open>
  What one run of the script reads: the secrets store, the value of the audio
  widget (\<open>None\<close> before a recording), whether the button reports a click in this run,
  and how the service answers a call in this run: by raising or by returning the
  decoded response.
\<close>

record run_env =
  secrets_file :: secrets_store
  audio_input :: "byte list option"
  button :: bool
  service :: "request \<Rightarrow> py_exc + py_val"

text \<open>Every call of a Streamlit element (\<^verbatim>\<open>st.title\<close>, \<^verbatim>\<open>st.error\<close>, ...) appends it to the page.\<close>

text \<open>
  The entries of the store, none without a file: \<open>secrets env k = Some v\<close> says that
  there is a \<^verbatim>\<open>secrets.toml\<close> and that it gives \<open>k\<close> the value \<open>v\<close>.
\<close>

definition secrets :: "run_env \<Rightarrow> string \<rightharpoonup> string" where
  "secrets env =
     (case secrets_file env of
        No_secrets_file e \<Rightarrow> Map.empty
      | Secrets_toml entries \<Rightarrow> entries)"

definition st :: "ui_event \<Rightarrow> world \<Rightarrow> world" where
  "st element w = w\<lparr>ui := ui w @ [element]\<rparr>"

text \<open>
  The client object: for a credential that is a string, \<^verbatim>\<open>Deepgram(DEEPGRAM_API_KEY)\<close>
  only keeps it.
\<close>

datatype deepgram = Deepgram string

text \<open>
  \<^verbatim>\<open>await dg_client.transcription.prerecorded(source, options)\<close>: the call goes
  to the log, and the service answers it by returning the decoded response or by raising.
\<close>

fun prerecorded ::
  "deepgram \<Rightarrow> (request \<Rightarrow> py_exc + py_val) \<Rightarrow> source \<Rightarrow> (string \<times> py_val) list \<Rightarrow>
   world \<Rightarrow> (py_exc + py_val) \<times> world" where
  "prerecorded (Deepgram key) serv src opts w =
     (let rq = \<lparr>api_key = key, audio_source = src, options = opts\<rparr>
      in (serv rq, w\<lparr>net := net w @ [rq]\<rparr>))"

text \<open>
  The argument of \<^verbatim>\<open>transcribe_microphone_audio\<close>: a \<^verbatim>\<open>BytesIO\<close> with its
  content, or an object of the named type that has no \<^verbatim>\<open>getvalue\<close>.
\<close>

datatype audio_obj = BytesIO "byte list" | Other string

fun getvalue :: "audio_obj \<Rightarrow> py_exc + byte list" where
  "getvalue (BytesIO bs) = Inr bs"
| "getvalue (Other ty) =
     Inl (AttributeError (quoted ty @ '' object has no attribute '' @ quoted ''getvalue''))"

section \<open>The transcription function\<close>

text \<open>
  \<^verbatim>\<open>response["results"]["channels"][0]["alternatives"][0]["transcript"]\<close>,
  evaluated from the left.
\<close>

definition transcript_of :: "py_val \<Rightarrow> py_exc + py_val" where
  "transcript_of response =
     and_then (getitem_key response ''results'') (\<lambda>results.
     and_then (getitem_key results ''channels'') (\<lambda>channels.
     and_then (getitem_0 channels) (\<lambda>channel.
     and_then (getitem_key channel ''alternatives'') (\<lambda>alternatives.
     and_then (getitem_0 alternatives) (\<lambda>alternative.
     getitem_key alternative ''transcript'')))))"

text \<open>The statements of the \<^verbatim>\<open>try\<close> block, up to the first exception.\<close>

definition transcribe_try ::
  "deepgram \<Rightarrow> (request \<Rightarrow> py_exc + py_val) \<Rightarrow> audio_obj \<Rightarrow> world \<Rightarrow>
   (py_exc + py_val) \<times> world" where
  "transcribe_try dg_client serv audio_data_bytesio w =
     (case getvalue audio_data_bytesio of
        Inl e \<Rightarrow> (Inl e, w)
      | Inr bs \<Rightarrow>
         (let src = \<lparr>buffer = bs, mimetype = ''audio/webm''\<rparr>;
              w1 = st (Info (PStr
                ''Sending audio to Deepgram for transcription... This may take a moment.'')) w;
              (answer, w2) = prerecorded dg_client serv src
                [(''smart_format'', PBool True),
                 (''model'', PStr ''nova-2''),
                 (''language'', PStr ''en-US'')] w1
          in (case answer of
                Inl e \<Rightarrow> (Inl e, w2)
              | Inr response \<Rightarrow> (transcript_of response, w2))))"

text \<open>
  The whole function: \<^verbatim>\<open>except Exception as e\<close> takes every exception whose class
  derives from \<^verbatim>\<open>Exception\<close>, shows it and returns \<^verbatim>\<open>None\<close>; any other
  exception leaves the function (\<open>Inl\<close>).
\<close>

definition transcribe_microphone_audio ::
  "deepgram \<Rightarrow> (request \<Rightarrow> py_exc + py_val) \<Rightarrow> audio_obj \<Rightarrow> world \<Rightarrow>
   (py_exc + py_val) \<times> world" where
  "transcribe_microphone_audio dg_client serv audio_data_bytesio w =
     (case transcribe_try dg_client serv audio_data_bytesio w of
        (Inr transcript, w1) \<Rightarrow> (Inr transcript, w1)
      | (Inl e, w1) \<Rightarrow>
          if is_Exception e
          then (Inr PNone, st (Error (''Error during transcription: '' @ exc_str e)) w1)
          else (Inl e, w1))"

section \<open>The page\<close>

definition microphone :: string where
  \<comment> \<open>U+1F3A4 in UTF-8\<close>
  "microphone = [CHR 0xF0, CHR 0x9F, CHR 0x8E, CHR 0xA4]"

definition heart :: string where
  \<comment> \<open>U+2764 U+FE0F in UTF-8\<close>
  "heart = [CHR 0xE2, CHR 0x9D, CHR 0xA4, CHR 0xEF, CHR 0xB8, CHR 0x8F]"

text \<open>
  \<^verbatim>\<open>main\<close> returns the exception that left it, if any, and the world.
  \<^verbatim>\<open>asyncio.run\<close> runs the transcription to its end and hands on its result or
  its exception; an exception leaves the spinner block and skips the rest of the page.
\<close>

definition main :: "deepgram \<Rightarrow> run_env \<Rightarrow> world \<Rightarrow> py_exc option \<times> world" where
  "main dg_client env w0 =
     (let w1 = st (Set_page_config ''Microphone Voice-to-Text Transcriber'' microphone) w0;
          w2 = st (Title
                 (microphone @ '' Voice-to-Text Transcriber with Microphone Input'')) w1;
          w3 = st (Write
                 ''Record your voice using the microphone below and get an instant transcription.'')
                 w2;
          w4 = st (Markdown ''---'') w3;
          w5 = st (Audio_input ''Click 'Record' to start, then 'Stop' when you're done:''
                 ''Make sure your microphone is enabled and working.'') w4;
          audio_bytes = audio_input env;
          (raised, w6) =
            (case audio_bytes of
               Some clip \<Rightarrow>
                 (let w = st (Subheader ''Recorded Audio Playback:'') w5;
                      w = st (Audio clip ''audio/webm'') w;
                      w = st (Button ''Transcribe Recorded Audio'' True) w
                  in if button env
                     then
                       (let w = st (Spinner ''Transcribing your audio... Please wait.'') w
                        in case transcribe_microphone_audio dg_client (service env)
                                  (BytesIO clip) w of
                             (Inl e, w) \<Rightarrow> (Some e, st Spinner_exit w)
                           | (Inr transcript, w) \<Rightarrow>
                               (None, st Spinner_exit
                                 (if truthy transcript
                                  then st (Info transcript)
                                        (st (Subheader ''Your Transcript:'')
                                          (st (Success ''Transcription Complete!'') w))
                                  else st (Warning
  ''Transcription failed or returned no text. Please try recording again.'') w)))
                     else (None, w))
             | None \<Rightarrow>
                 (None, st (Info (PStr
                    ''Ready to record! Record your voice above to get started.'')) w5))
      in case raised of
           Some e \<Rightarrow> (Some e, w6)
         | None \<Rightarrow>
             (None, st (Markdown (''Built with '' @ heart @
      '' using [Streamlit](https://streamlit.io/) and [Deepgram's Speech-to-Text API](https://deepgram.com/).''))
                     (st (Markdown ''---'') w6)))"

section \<open>The script\<close>

text \<open>
  How a run of the script ends: it ran to its end, \<^verbatim>\<open>st.stop()\<close> halted it, or an
  exception left it.
\<close>

datatype run_result = Completed | Stopped | Uncaught py_exc

text \<open>
  The module level of \<^verbatim>\<open>app.py\<close>. It reads the credential inside
  \<^verbatim>\<open>try: ... except KeyError:\<close>. Without a secrets file the exception of
  \<^verbatim>\<open>st.secrets\<close> is not a \<^verbatim>\<open>KeyError\<close>: the handler does not take it, and it
  leaves the script. A key that the file does not have is \<^verbatim>\<open>KeyError\<close>: the handler
  shows the message and stops the run. With the credential, the script builds the client
  and calls \<^verbatim>\<open>main\<close>.
\<close>

definition app :: "run_env \<Rightarrow> world \<Rightarrow> run_result \<times> world" where
  "app env w0 =
     (case secrets_file env of
        No_secrets_file e \<Rightarrow> (Uncaught e, w0)
      | Secrets_toml entries \<Rightarrow>
          (case entries ''DEEPGRAM_API_KEY'' of
             None \<Rightarrow>
               (Stopped, st (Error (''Deepgram API Key not found. Please set it in '' @
                  ''`.streamlit/secrets.toml` (for local) or via Streamlit Cloud secrets.'')) w0)
           | Some DEEPGRAM_API_KEY \<Rightarrow>
               (let dg_client = Deepgram DEEPGRAM_API_KEY
                in case main dg_client env w0 of
                     (None, w) \<Rightarrow> (Completed, w)
                   | (Some e, w) \<Rightarrow> (Uncaught e, w))))"

text \<open>
  Streamlit runs the script from the top for every interaction, each time on an empty
  page; the log of calls is the only thing that lasts across runs.
\<close>

fun session :: "run_env list \<Rightarrow> world \<Rightarrow> world" where
  "session [] w = w"
| "session (env # envs) w = session envs (snd (app env (w\<lparr>ui := []\<rparr>)))"

section \<open>Terms of the statements\<close>

text \<open>
  Short names for the terms that the script builds and the theorems speak about: the
  call it makes for a credential and a clip, and the elements it shows around it.
\<close>

abbreviation (input) sent_request :: "string \<Rightarrow> byte list \<Rightarrow> request" where
  "sent_request key clip \<equiv>
     \<lparr>api_key = key,
      audio_source = \<lparr>buffer = clip, mimetype = ''audio/webm''\<rparr>,
      options = [(''smart_format'', PBool True),
                 (''model'', PStr ''nova-2''),
                 (''language'', PStr ''en-US'')]\<rparr>"

abbreviation (input) sending_note :: ui_event where
  "sending_note \<equiv> Info (PStr
     ''Sending audio to Deepgram for transcription... This may take a moment.'')"

abbreviation (input) error_banner :: "py_exc \<Rightarrow> ui_event" where
  "error_banner e \<equiv> Error (''Error during transcription: '' @ exc_str e)"

abbreviation (input) try_again_warning :: ui_event where
  "try_again_warning \<equiv> Warning
     ''Transcription failed or returned no text. Please try recording again.''"

abbreviation (input) transcript_shown :: "py_val \<Rightarrow> ui_event list" where
  "transcript_shown transcript \<equiv>
     [Success ''Transcription Complete!'', Subheader ''Your Transcript:'', Info transcript]"

abbreviation (input) fresh :: "request list \<Rightarrow> world" where
  \<comment> \<open>the start of a run: an empty page and the calls made so far\<close>
  "fresh calls \<equiv> \<lparr>ui = [], net = calls\<rparr>"

abbreviation (input) page_head :: "ui_event list" where
  \<comment> \<open>what \<^verbatim>\<open>main\<close> renders before it looks at the audio widget's value\<close>
  "page_head \<equiv>
     [Set_page_config ''Microphone Voice-to-Text Transcriber'' microphone,
      Title (microphone @ '' Voice-to-Text Transcriber with Microphone Input''),
      Write ''Record your voice using the microphone below and get an instant transcription.'',
      Markdown ''---'',
      Audio_input ''Click 'Record' to start, then 'Stop' when you're done:''
        ''Make sure your microphone is enabled and working.'']"

abbreviation (input) playback :: "byte list \<Rightarrow> ui_event list" where
  \<comment> \<open>what it renders for a recorded clip, up to the button\<close>
  "playback clip \<equiv>
     [Subheader ''Recorded Audio Playback:'',
      Audio clip ''audio/webm'',
      Button ''Transcribe Recorded Audio'' True]"

abbreviation (input) page_foot :: "ui_event list" where
  "page_foot \<equiv>
     [Markdown ''---'',
      Markdown (''Built with '' @ heart @
      '' using [Streamlit](https://streamlit.io/) and [Deepgram's Speech-to-Text API](https://deepgram.com/).'')]"


abbreviation (input) response_with :: "py_val \<Rightarrow> py_val" where
  \<comment> \<open>the smallest response that has the path to a transcript\<close>
  "response_with transcript \<equiv>
     PDict [(''results'', PDict [(''channels'', PList [PDict [(''alternatives'',
       PList [PDict [(''transcript'', transcript)]])]])])]"

abbreviation (input) pressed ::
  "string \<Rightarrow> byte list \<Rightarrow> (request \<Rightarrow> py_exc + py_val) \<Rightarrow> run_env" where
  \<comment> \<open>a run with the credential in the store, a recorded clip and a click on the button\<close>
  "pressed key clip serv \<equiv>
     \<lparr>secrets_file = Secrets_toml [''DEEPGRAM_API_KEY'' \<mapsto> key],
      audio_input = Some clip, button = True, service = serv\<rparr>"

section \<open>Auxiliary facts\<close>

subsection \<open>The transcription function, case by case\<close>

lemma getitem_key_raises: "getitem_key v k = Inl e \<Longrightarrow> is_Exception e"
  by (cases v)
     (auto simp: KeyError_def TypeError_def not_subscriptable_def split: option.splits)

lemma getitem_0_raises: "getitem_0 v = Inl e \<Longrightarrow> is_Exception e"
  by (cases v)
     (auto simp: KeyError_def TypeError_def IndexError_def not_subscriptable_def
           split: list.splits)

lemma and_then_Inl:
  "and_then x f = Inl e \<Longrightarrow> x = Inl e \<or> (\<exists>y. x = Inr y \<and> f y = Inl e)"
  by (cases x) auto

lemma transcript_of_raises:
  assumes "transcript_of response = Inl e"
  shows "is_Exception e"
  using assms unfolding transcript_of_def
  by (auto dest!: and_then_Inl dest: getitem_key_raises getitem_0_raises)

lemma tma_returned:
  assumes "serv (sent_request key clip) = Inr response"
      and "transcript_of response = Inr t"
  shows "transcribe_microphone_audio (Deepgram key) serv (BytesIO clip) w =
           (Inr t, w\<lparr>ui := ui w @ [sending_note], net := net w @ [sent_request key clip]\<rparr>)"
  using assms
  by (simp add: transcribe_microphone_audio_def transcribe_try_def st_def)

lemma tma_raised:
  assumes "serv (sent_request key clip) = Inl e" and "is_Exception e"
  shows "transcribe_microphone_audio (Deepgram key) serv (BytesIO clip) w =
           (Inr PNone, w\<lparr>ui := ui w @ [sending_note, error_banner e],
                          net := net w @ [sent_request key clip]\<rparr>)"
  using assms
  by (simp add: transcribe_microphone_audio_def transcribe_try_def st_def)

lemma tma_malformed:
  assumes "serv (sent_request key clip) = Inr response"
      and "transcript_of response = Inl e"
  shows "transcribe_microphone_audio (Deepgram key) serv (BytesIO clip) w =
           (Inr PNone, w\<lparr>ui := ui w @ [sending_note, error_banner e],
                          net := net w @ [sent_request key clip]\<rparr>)"
  using assms transcript_of_raises [OF assms(2)]
  by (simp add: transcribe_microphone_audio_def transcribe_try_def st_def)

lemma tma_escaped:
  assumes "serv (sent_request key clip) = Inl e" and "\<not> is_Exception e"
  shows "transcribe_microphone_audio (Deepgram key) serv (BytesIO clip) w =
           (Inl e, w\<lparr>ui := ui w @ [sending_note], net := net w @ [sent_request key clip]\<rparr>)"
  using assms
  by (simp add: transcribe_microphone_audio_def transcribe_try_def st_def)

lemma tma_no_getvalue:
  "transcribe_microphone_audio dg serv (Other ty) w =
     (Inr PNone, w\<lparr>ui := ui w @ [error_banner (AttributeError
        (quoted ty @ '' object has no attribute '' @ quoted ''getvalue''))]\<rparr>)"
  by (simp add: transcribe_microphone_audio_def transcribe_try_def st_def AttributeError_def)

lemma tma_frame:
  "transcribe_microphone_audio dg serv a w =
     (fst (transcribe_microphone_audio dg serv a (fresh [])),
      w\<lparr>ui := ui w @ ui (snd (transcribe_microphone_audio dg serv a (fresh []))),
        net := net w @ net (snd (transcribe_microphone_audio dg serv a (fresh [])))\<rparr>)"
proof (cases a)
  case (Other ty)
  then show ?thesis by (simp add: tma_no_getvalue)
next
  case (BytesIO clip)
  obtain key where dg: "dg = Deepgram key" by (cases dg)
  show ?thesis
  proof (cases "serv (sent_request key clip)")
    case (Inl e)
    then show ?thesis
      unfolding BytesIO dg by (cases "is_Exception e") (simp_all add: tma_raised tma_escaped)
  next
    case (Inr response)
    then show ?thesis
      unfolding BytesIO dg
      by (cases "transcript_of response") (simp_all add: tma_malformed tma_returned)
  qed
qed

lemma tma_appends:
  "\<exists>r added reqs. \<forall>w. transcribe_microphone_audio dg serv a w =
      (r, w\<lparr>ui := ui w @ added, net := net w @ reqs\<rparr>)"
  using tma_frame [of dg serv a] by blast

lemma main_idle:
  assumes "audio_input env = None"
  shows "main dg env w =
           (None, w\<lparr>ui := ui w @ page_head @
              Info (PStr ''Ready to record! Record your voice above to get started.'') #
              page_foot\<rparr>)"
  using assms by (simp add: main_def st_def Let_def)

lemma main_not_pressed:
  assumes "audio_input env = Some clip" and "\<not> button env"
  shows "main dg env w = (None, w\<lparr>ui := ui w @ page_head @ playback clip @ page_foot\<rparr>)"
  using assms by (simp add: main_def st_def Let_def)

lemma main_pressed_returned:
  assumes "audio_input env = Some clip" and "button env"
      and "\<And>w. transcribe_microphone_audio dg (service env) (BytesIO clip) w =
             (Inr t, w\<lparr>ui := ui w @ added, net := net w @ reqs\<rparr>)"
  shows "main dg env w =
           (None,
            w\<lparr>ui := ui w @ page_head @ playback clip @
                  Spinner ''Transcribing your audio... Please wait.'' # added @
                  (if truthy t then transcript_shown t else [try_again_warning]) @
                  Spinner_exit # page_foot,
              net := net w @ reqs\<rparr>)"
  using assms(1,2)
  by (cases "truthy t") (simp_all add: main_def st_def Let_def assms(3))

lemma main_pressed_escaped:
  assumes "audio_input env = Some clip" and "button env"
      and "\<And>w. transcribe_microphone_audio dg (service env) (BytesIO clip) w =
             (Inl e, w\<lparr>ui := ui w @ added, net := net w @ reqs\<rparr>)"
  shows "main dg env w =
           (Some e,
            w\<lparr>ui := ui w @ page_head @ playback clip @
                  Spinner ''Transcribing your audio... Please wait.'' # added @ [Spinner_exit],
              net := net w @ reqs\<rparr>)"
  using assms(1,2) by (simp add: main_def st_def Let_def assms(3))

lemma main_frame:
  "main dg env w =
     (fst (main dg env (fresh [])),
      w\<lparr>ui := ui w @ ui (snd (main dg env (fresh []))),
        net := net w @ net (snd (main dg env (fresh [])))\<rparr>)"
proof (cases "audio_input env")
  case None
  show ?thesis by (simp add: main_idle [OF None])
next
  case (Some clip)
  show ?thesis
  proof (cases "button env")
    case False
    show ?thesis by (simp add: main_not_pressed [OF Some False])
  next
    case True
    obtain r added reqs where
      tma: "\<And>w. transcribe_microphone_audio dg (service env) (BytesIO clip) w =
        (r, w\<lparr>ui := ui w @ added, net := net w @ reqs\<rparr>)"
      using tma_appends [of dg "service env" "BytesIO clip"] by blast
    show ?thesis
    proof (cases r)
      case (Inl e)
      show ?thesis
        by (simp add: main_pressed_escaped [OF Some True tma [unfolded Inl]])
    next
      case (Inr t)
      show ?thesis
        by (simp add: main_pressed_returned [OF Some True tma [unfolded Inr]])
    qed
  qed
qed

lemma app_frame:
  "app env w =
     (fst (app env (fresh [])),
      w\<lparr>ui := ui w @ ui (snd (app env (fresh []))),
        net := net w @ net (snd (app env (fresh [])))\<rparr>)"
proof (cases "secrets_file env")
  case (No_secrets_file e)
  then show ?thesis by (simp add: app_def)
next
  case (Secrets_toml entries)
  show ?thesis
  proof (cases "entries ''DEEPGRAM_API_KEY''")
    case None
    with Secrets_toml show ?thesis by (simp add: app_def st_def)
  next
    case (Some key)
    obtain r w1 where m: "main (Deepgram key) env (fresh []) = (r, w1)"
      by (cases "main (Deepgram key) env (fresh [])")
    have "main (Deepgram key) env w = (r, w\<lparr>ui := ui w @ ui w1, net := net w @ net w1\<rparr>)"
      using main_frame [of "Deepgram key" env w] m by simp
    with Secrets_toml Some m show ?thesis by (cases r) (simp_all add: app_def)
  qed
qed

lemma app_with_key:
  assumes "secrets env ''DEEPGRAM_API_KEY'' = Some key"
  shows "app env w =
           (case main (Deepgram key) env w of
              (None, w') \<Rightarrow> (Completed, w') | (Some e, w') \<Rightarrow> (Uncaught e, w'))"
  using assms by (cases "secrets_file env") (simp_all add: app_def secrets_def)

lemma app_pressed_returned:
  assumes "secrets env ''DEEPGRAM_API_KEY'' = Some key"
      and "audio_input env = Some clip" and "button env"
      and "\<And>w. transcribe_microphone_audio (Deepgram key) (service env) (BytesIO clip) w =
             (Inr t, w\<lparr>ui := ui w @ added, net := net w @ reqs\<rparr>)"
  shows "app env (fresh calls) =
           (Completed,
            \<lparr>ui = page_head @ playback clip @
                  Spinner ''Transcribing your audio... Please wait.'' # added @
                  (if truthy t then transcript_shown t else [try_again_warning]) @
                  Spinner_exit # page_foot,
             net = calls @ reqs\<rparr>)"
  by (simp add: app_with_key [OF assms(1)] main_pressed_returned [OF assms(2,3,4)])

lemma app_pressed_escaped:
  assumes "secrets env ''DEEPGRAM_API_KEY'' = Some key"
      and "audio_input env = Some clip" and "button env"
      and "\<And>w. transcribe_microphone_audio (Deepgram key) (service env) (BytesIO clip) w =
             (Inl e, w\<lparr>ui := ui w @ added, net := net w @ reqs\<rparr>)"
  shows "app env (fresh calls) =
           (Uncaught e,
            \<lparr>ui = page_head @ playback clip @
                  Spinner ''Transcribing your audio... Please wait.'' # added @ [Spinner_exit],
             net = calls @ reqs\<rparr>)"
  by (simp add: app_with_key [OF assms(1)] main_pressed_escaped [OF assms(2,3,4)])

lemma app_not_pressed:
  assumes "secrets env ''DEEPGRAM_API_KEY'' = Some key"
      and "audio_input env = Some clip" and "\<not> button env"
  shows "app env (fresh calls) =
           (Completed, \<lparr>ui = page_head @ playback clip @ page_foot, net = calls\<rparr>)"
  by (simp add: app_with_key [OF assms(1)] main_not_pressed [OF assms(2,3)])

lemma app_idle:
  assumes "secrets env ''DEEPGRAM_API_KEY'' = Some key" and "audio_input env = None"
  shows "app env (fresh calls) =
           (Completed,
            \<lparr>ui = page_head @
               Info (PStr ''Ready to record! Record your voice above to get started.'') #
               page_foot,
             net = calls\<rparr>)"
  by (simp add: app_with_key [OF assms(1)] main_idle [OF assms(2)])



lemma app_without_key:
  assumes "secrets env ''DEEPGRAM_API_KEY'' = None"
  shows "net (snd (app env w)) = net w"
    and "filter is_Button (ui (snd (app env w))) = filter is_Button (ui w)"
  using assms
  by (cases "secrets_file env"; simp add: app_def st_def secrets_def)+

subsection \<open>What a run adds to the log of calls\<close>

lemma tma_on_clip:
  "\<exists>r added.
     (\<forall>w. transcribe_microphone_audio (Deepgram key) serv (BytesIO clip) w =
        (r, w\<lparr>ui := ui w @ sending_note # added, net := net w @ [sent_request key clip]\<rparr>))
     \<and> (added = [] \<or> (\<exists>e. added = [error_banner e] \<and> r = Inr PNone))"
proof (cases "serv (sent_request key clip)")
  case (Inl e)
  show ?thesis
  proof (cases "is_Exception e")
    case True
    show ?thesis
      by (rule exI [of _ "Inr PNone"], rule exI [of _ "[error_banner e]"])
         (auto simp: tma_raised Inl True)
  next
    case False
    show ?thesis
      by (rule exI [of _ "Inl e"], rule exI [of _ "[]"]) (auto simp: tma_escaped Inl False)
  qed
next
  case (Inr response)
  show ?thesis
  proof (cases "transcript_of response")
    case (Inl e)
    show ?thesis
      by (rule exI [of _ "Inr PNone"], rule exI [of _ "[error_banner e]"])
         (auto simp: tma_malformed Inr Inl)
  next
    case Inr2: (Inr t)
    show ?thesis
      by (rule exI [of _ "Inr t"], rule exI [of _ "[]"]) (auto simp: tma_returned Inr Inr2)
  qed
qed

lemma app_pressed_net:
  assumes "secrets env ''DEEPGRAM_API_KEY'' = Some key"
      and "audio_input env = Some clip" and "button env"
  shows "net (snd (app env w)) = net w @ [sent_request key clip]"
proof -
  obtain r added where
    tma: "\<And>w. transcribe_microphone_audio (Deepgram key) (service env) (BytesIO clip) w =
       (r, w\<lparr>ui := ui w @ sending_note # added, net := net w @ [sent_request key clip]\<rparr>)"
    and "added = [] \<or> (\<exists>e. added = [error_banner e] \<and> r = Inr PNone)"
    using tma_on_clip [of key "service env" clip] by blast
  have "net (snd (app env (fresh []))) = [sent_request key clip]"
  proof (cases r)
    case (Inl e)
    show ?thesis
      using app_pressed_escaped [OF assms tma [unfolded Inl], where calls = "[]"] by simp
  next
    case (Inr t)
    show ?thesis
      using app_pressed_returned [OF assms tma [unfolded Inr], where calls = "[]"] by simp
  qed
  then show ?thesis
    using app_frame [of env w] by simp
qed

lemma app_net:
  "net (snd (app env w)) = net w @
     (case secrets env ''DEEPGRAM_API_KEY'' of
        None \<Rightarrow> []
      | Some key \<Rightarrow>
          (case audio_input env of
             None \<Rightarrow> []
           | Some clip \<Rightarrow> if button env then [sent_request key clip] else []))"
proof (cases "secrets env ''DEEPGRAM_API_KEY''")
  case None
  then show ?thesis by (simp add: app_without_key)
next
  case key: (Some key)
  show ?thesis
  proof (cases "audio_input env")
    case None
    have "net (snd (app env (fresh []))) = []"
      using app_idle [OF key None, where calls = "[]"] by simp
    then show ?thesis using app_frame [of env w] key None by simp
  next
    case clip: (Some clip)
    show ?thesis
    proof (cases "button env")
      case True
      then show ?thesis using app_pressed_net [OF key clip True] key clip by simp
    next
      case False
      have "net (snd (app env (fresh []))) = []"
        using app_not_pressed [OF key clip False, where calls = "[]"] by simp
      then show ?thesis using app_frame [of env w] key clip False by simp
    qed
  qed
qed

subsection \<open>The page of a run that has the credential\<close>


section \<open>The claims\<close>

subsection \<open>C1: the transcript that is returned\<close>

text \<open>
  C1. On a successful service call, \<^verbatim>\<open>transcribe_microphone_audio\<close> returns exactly
  what the response has at \<^verbatim>\<open>results -> channels[0] -> alternatives[0] -> transcript\<close>,
  and the call it made asked for smart formatting through the option
  \<^verbatim>\<open>smart_format\<close>. The path is spelled out on the response itself: the response is
  a dict whose \<^verbatim>\<open>results\<close> is a dict, whose \<^verbatim>\<open>channels\<close> is a list that begins
  with a dict, whose \<^verbatim>\<open>alternatives\<close> is a list that begins with a dict, which has a
  \<^verbatim>\<open>transcript\<close>; whatever else the dicts hold and whatever follows in the lists.
  Then that transcript is the result, the one call made is the expected one, and its
  options map \<^verbatim>\<open>smart_format\<close> to \<^verbatim>\<open>True\<close>.
\<close>

theorem C1_first_transcript_returned:
  assumes "serv (sent_request key clip) = Inr (PDict response)"
      and "map_of response ''results'' = Some (PDict results)"
      and "map_of results ''channels'' = Some (PList (PDict channel # other_channels))"
      and "map_of channel ''alternatives'' =
             Some (PList (PDict alternative # other_alternatives))"
      and "map_of alternative ''transcript'' = Some transcript"
  shows "fst (transcribe_microphone_audio (Deepgram key) serv (BytesIO clip) w) = Inr transcript
       \<and> net (snd (transcribe_microphone_audio (Deepgram key) serv (BytesIO clip) w)) =
           net w @ [sent_request key clip]
       \<and> map_of (options (sent_request key clip)) ''smart_format'' = Some (PBool True)"
proof -
  have "transcript_of (PDict response) = Inr transcript"
    using assms(2-5) by (simp add: transcript_of_def)
  with assms(1) show ?thesis by (simp add: tma_returned)
qed

theorem C1_witness:
  "fst (transcribe_microphone_audio (Deepgram ''k'')
          (\<lambda>rq. Inr (PDict
             [(''metadata'', PDict [(''channels'', PInt 2)]),
              (''results'', PDict
                 [(''channels'', PList
                    [PDict [(''alternatives'', PList
                       [PDict [(''confidence'', PFloat (Finite 1)),
                               (''transcript'', PStr ''Hello.'')],
                        PDict [(''transcript'', PStr ''Hollow.'')]])],
                     PDict [(''alternatives'', PList
                       [PDict [(''transcript'', PStr ''Second channel.'')]])]])])]))
          (BytesIO [1, 2]) (fresh [])) =
     Inr (PStr ''Hello.'')"
proof -
  let ?alternative = "[(''confidence'', PFloat (Finite 1)), (''transcript'', PStr ''Hello.'')]"
  let ?channel = "[(''alternatives'', PList
    [PDict ?alternative, PDict [(''transcript'', PStr ''Hollow.'')]])]"
  let ?results = "[(''channels'', PList
    [PDict ?channel,
     PDict [(''alternatives'', PList [PDict [(''transcript'', PStr ''Second channel.'')]])]])]"
  let ?response = "[(''metadata'', PDict [(''channels'', PInt 2)]), (''results'', PDict ?results)]"
  let ?serv = "\<lambda>rq :: request. (Inr (PDict ?response) :: py_exc + py_val)"
  have h1: "?serv (sent_request ''k'' [1, 2]) = Inr (PDict ?response)" by simp
  have h2: "map_of ?response ''results'' = Some (PDict ?results)" by simp
  have h3: "map_of ?results ''channels'' = Some (PList (PDict ?channel #
      [PDict [(''alternatives'', PList [PDict [(''transcript'', PStr ''Second channel.'')]])]]))"
    by simp
  have h4: "map_of ?channel ''alternatives'' =
      Some (PList (PDict ?alternative # [PDict [(''transcript'', PStr ''Hollow.'')]]))"
    by simp
  have h5: "map_of ?alternative ''transcript'' = Some (PStr ''Hello.'')" by simp
  from C1_first_transcript_returned [OF h1 h2 h3 h4 h5, where w = "fresh []"]
  show ?thesis by simp
qed

subsection \<open>C2: a failed call is caught\<close>

text \<open>
  C2. For every failure of the service call (a transport or authentication error, which
  the client raises as an exception of class \<^verbatim>\<open>Exception\<close>, or a response in which
  the path to the transcript is missing or malformed, so that reading it raises),
  \<^verbatim>\<open>transcribe_microphone_audio\<close> catches the exception \<open>e\<close>, shows
  \<^verbatim>\<open>Error during transcription: \<close> followed by \<^verbatim>\<open>str(e)\<close>, and returns
  \<^verbatim>\<open>None\<close>; it has made exactly one call (no retry). The run of the script then
  shows the error banner and the try-again warning and ends normally: it does not
  crash.
\<close>

theorem C2_failure_caught:
  assumes "secrets env ''DEEPGRAM_API_KEY'' = Some key"
      and "audio_input env = Some clip" and "button env"
      and "service env (sent_request key clip) = Inl e \<and> is_Exception e
         \<or> (\<exists>response. service env (sent_request key clip) = Inr response
                \<and> transcript_of response = Inl e)"
  shows "transcribe_microphone_audio (Deepgram key) (service env) (BytesIO clip) w =
           (Inr PNone, w\<lparr>ui := ui w @ [sending_note, error_banner e],
                          net := net w @ [sent_request key clip]\<rparr>)
       \<and> app env (fresh calls) =
           (Completed,
            \<lparr>ui = page_head @ playback clip @
                  [Spinner ''Transcribing your audio... Please wait.'',
                   sending_note, error_banner e, try_again_warning, Spinner_exit] @ page_foot,
             net = calls @ [sent_request key clip]\<rparr>)"
proof -
  have tma: "transcribe_microphone_audio (Deepgram key) (service env) (BytesIO clip) w =
      (Inr PNone, w\<lparr>ui := ui w @ [sending_note, error_banner e],
                     net := net w @ [sent_request key clip]\<rparr>)" for w
    using assms(4) by (auto simp: tma_raised tma_malformed)
  show ?thesis
    using app_pressed_returned [OF assms(1-3) tma, where calls = calls] tma [of w] by simp
qed

theorem C2_witness:
  "fst (app (pressed ''k'' [1, 2]
          (\<lambda>rq. Inl \<lparr>exc_class = ''Exception'', is_Exception = True,
                      exc_str = ''DG: 401 Unauthorized''\<rparr>)) (fresh [])) = Completed
   \<and> net (snd (app (pressed ''k'' [1, 2]
          (\<lambda>rq. Inl \<lparr>exc_class = ''Exception'', is_Exception = True,
                      exc_str = ''DG: 401 Unauthorized''\<rparr>)) (fresh []))) =
       [sent_request ''k'' [1, 2]]
   \<and> fst (transcribe_microphone_audio (Deepgram ''k'')
          (\<lambda>rq. Inl \<lparr>exc_class = ''Exception'', is_Exception = True,
                      exc_str = ''DG: 401 Unauthorized''\<rparr>) (BytesIO [1, 2]) (fresh [])) =
       Inr PNone"
proof -
  let ?e = "\<lparr>exc_class = ''Exception'', is_Exception = True,
             exc_str = ''DG: 401 Unauthorized''\<rparr>"
  let ?env = "pressed ''k'' [1, 2] (\<lambda>rq. Inl ?e)"
  have h1: "secrets ?env ''DEEPGRAM_API_KEY'' = Some ''k''" by (simp add: secrets_def)
  have h2: "audio_input ?env = Some [1, 2]" by simp
  have h3: "button ?env" by simp
  have h4: "service ?env (sent_request ''k'' [1, 2]) = Inl ?e \<and> is_Exception ?e
         \<or> (\<exists>response. service ?env (sent_request ''k'' [1, 2]) = Inr response
                \<and> transcript_of response = Inl ?e)" by simp
  from C2_failure_caught [OF h1 h2 h3 h4, where w = "fresh []" and calls = "[]"]
  show ?thesis by simp
qed

subsection \<open>C3: the credential at startup\<close>



subsection \<open>C4: the transcript is shown for a non-empty string, and only then\<close>

text \<open>
  C4. After a press of the button, for a result of the transcription function that is
  a string or \<^verbatim>\<open>None\<close> (what its docstring promises): the page shows the success
  banner, the subheader and the transcript itself, unmodified, if and only if the result
  is a non-empty string; for \<^verbatim>\<open>None\<close> and for the empty string it shows the
  try-again warning in their place. The first conjunct gives the whole page, the other
  two the equivalences. (The branch in \<^verbatim>\<open>main\<close> is \<^verbatim>\<open>if transcript:\<close>, the
  truth value of the result; on strings and \<^verbatim>\<open>None\<close> that is "non-empty string".)
\<close>

theorem C4_transcript_shown_iff_nonempty:
  assumes "secrets env ''DEEPGRAM_API_KEY'' = Some key"
      and "audio_input env = Some clip" and "button env"
      and "fst (transcribe_microphone_audio (Deepgram key) (service env) (BytesIO clip) w) =
             Inr result"
      and "result = PNone \<or> result = PStr s"
  shows "(\<exists>added. (added = [] \<or> (\<exists>e. added = [error_banner e]))
            \<and> ui (snd (app env (fresh calls))) =
                page_head @ playback clip @
                [Spinner ''Transcribing your audio... Please wait.'', sending_note] @ added @
                (if result = PStr s \<and> s \<noteq> [] then transcript_shown (PStr s)
                 else [try_again_warning]) @
                Spinner_exit # page_foot)
       \<and> (Success ''Transcription Complete!'' \<in> set (ui (snd (app env (fresh calls))))
            \<longleftrightarrow> result = PStr s \<and> s \<noteq> [])
       \<and> (try_again_warning \<in> set (ui (snd (app env (fresh calls))))
            \<longleftrightarrow> result = PNone \<or> result = PStr [])"
proof -
  obtain r added where
    tma: "\<And>w. transcribe_microphone_audio (Deepgram key) (service env) (BytesIO clip) w =
       (r, w\<lparr>ui := ui w @ sending_note # added,
             net := net w @ [sent_request key clip]\<rparr>)"
    and added: "added = [] \<or> (\<exists>e. added = [error_banner e] \<and> r = Inr PNone)"
    using tma_on_clip [of key "service env" clip] by blast
  from assms(4) have r: "r = Inr result" by (simp add: tma)
  have truthy: "truthy result \<longleftrightarrow> result = PStr s \<and> s \<noteq> []"
    using assms(5) by auto
  have page: "ui (snd (app env (fresh calls))) =
      page_head @ playback clip @
      [Spinner ''Transcribing your audio... Please wait.'', sending_note] @ added @
      (if result = PStr s \<and> s \<noteq> [] then transcript_shown (PStr s)
       else [try_again_warning]) @
      Spinner_exit # page_foot"
    using app_pressed_returned [OF assms(1-3) tma [unfolded r], where calls = calls] truthy
    by (cases "truthy result") simp_all
  have 1: "\<exists>added. (added = [] \<or> (\<exists>e. added = [error_banner e]))
            \<and> ui (snd (app env (fresh calls))) =
                page_head @ playback clip @
                [Spinner ''Transcribing your audio... Please wait.'', sending_note] @ added @
                (if result = PStr s \<and> s \<noteq> [] then transcript_shown (PStr s)
                 else [try_again_warning]) @
                Spinner_exit # page_foot"
    using page added by blast
  have 2: "Success ''Transcription Complete!'' \<in> set (ui (snd (app env (fresh calls))))
            \<longleftrightarrow> result = PStr s \<and> s \<noteq> []"
    using added by (cases "result = PStr s \<and> s \<noteq> []") (auto simp: page)
  have 3: "try_again_warning \<in> set (ui (snd (app env (fresh calls))))
            \<longleftrightarrow> result = PNone \<or> result = PStr []"
    using added assms(5) by (cases "result = PStr s \<and> s \<noteq> []") (auto simp: page)
  from 1 2 3 show ?thesis by blast
qed

theorem C4_witness:
  "fst (transcribe_microphone_audio (Deepgram ''k'')
          (\<lambda>rq. Inr (response_with (PStr ''Hello.''))) (BytesIO [1, 2]) (fresh [])) =
     Inr (PStr ''Hello.'')
   \<and> Success ''Transcription Complete!'' \<in> set (ui (snd (app
         (pressed ''k'' [1, 2] (\<lambda>rq. Inr (response_with (PStr ''Hello.'')))) (fresh []))))
   \<and> try_again_warning \<notin> set (ui (snd (app
         (pressed ''k'' [1, 2] (\<lambda>rq. Inr (response_with (PStr ''Hello.'')))) (fresh []))))"
proof -
  let ?serv = "\<lambda>rq :: request. (Inr (response_with (PStr ''Hello.'')) :: py_exc + py_val)"
  let ?env = "pressed ''k'' [1, 2] ?serv"
  have h1: "secrets ?env ''DEEPGRAM_API_KEY'' = Some ''k''" by (simp add: secrets_def)
  have h2: "audio_input ?env = Some [1, 2]" by simp
  have h3: "button ?env" by simp
  have h4: "fst (transcribe_microphone_audio (Deepgram ''k'') (service ?env)
      (BytesIO [1, 2]) (fresh [])) = Inr (PStr ''Hello.'')"
    by (simp add: tma_returned [where response = "response_with (PStr ''Hello.'')"]
        transcript_of_def)
  have h5: "PStr ''Hello.'' = PNone \<or> PStr ''Hello.'' = PStr ''Hello.''" by simp
  from C4_transcript_shown_iff_nonempty [OF h1 h2 h3 h4 h5, where calls = "[]"] h4
  show ?thesis by simp
qed

subsection \<open>C5: no audio, no transcribe control\<close>

text \<open>
  C5. In every run in which the audio widget yields \<^verbatim>\<open>None\<close>, no button is
  rendered and no call is made: \<^verbatim>\<open>main\<close> adds no \<open>Button\<close> to the page and
  leaves the log of calls as it was, and so does the whole script, with or without
  the credential.
\<close>

theorem C5_no_audio_no_transcribe_control:
  assumes "audio_input env = None"
  shows "filter is_Button (ui (snd (main dg_client env w))) = filter is_Button (ui w)
       \<and> net (snd (main dg_client env w)) = net w
       \<and> filter is_Button (ui (snd (app env (fresh calls)))) = []
       \<and> net (snd (app env (fresh calls))) = calls"
proof (cases "secrets env ''DEEPGRAM_API_KEY''")
  case None
  then show ?thesis by (simp add: main_idle [OF assms] app_without_key)
next
  case (Some key)
  then show ?thesis by (simp add: main_idle [OF assms] app_idle [OF Some assms])
qed

theorem C5_witness:
  "audio_input \<lparr>secrets_file = Secrets_toml [''DEEPGRAM_API_KEY'' \<mapsto> ''k''], audio_input = None, button = True,
       service = (\<lambda>rq. Inr (response_with (PStr ''Hello.'')))\<rparr> = None
   \<and> filter is_Button (ui (snd (app \<lparr>secrets_file = Secrets_toml [''DEEPGRAM_API_KEY'' \<mapsto> ''k''],
       audio_input = None, button = True,
       service = (\<lambda>rq. Inr (response_with (PStr ''Hello.'')))\<rparr> (fresh [])))) = []
   \<and> net (snd (app \<lparr>secrets_file = Secrets_toml [''DEEPGRAM_API_KEY'' \<mapsto> ''k''],
       audio_input = None, button = True,
       service = (\<lambda>rq. Inr (response_with (PStr ''Hello.'')))\<rparr> (fresh []))) = []"
proof -
  let ?env = "\<lparr>secrets_file = Secrets_toml [''DEEPGRAM_API_KEY'' \<mapsto> ''k''], audio_input = None, button = True,
       service = (\<lambda>rq :: request. (Inr (response_with (PStr ''Hello.'')) :: py_exc + py_val))\<rparr>"
  have h: "audio_input ?env = None" by simp
  from C5_no_audio_no_transcribe_control [OF h, where calls = "[]"] h show ?thesis
    by blast
qed

subsection \<open>C6: what a call carries\<close>

text \<open>
  C6. Every call that a run of the script adds to the log carries the bytes of the
  current clip (the value of the audio widget) unchanged, the MIME type
  \<^verbatim>\<open>audio/webm\<close>, and exactly the options \<^verbatim>\<open>smart_format: True\<close>,
  \<^verbatim>\<open>model: "nova-2"\<close>, \<^verbatim>\<open>language: "en-US"\<close>; it is made with the credential of
  the secrets store.
\<close>

theorem C6_request_payload:
  assumes "rq \<in> set (drop (length calls) (net (snd (app env (fresh calls)))))"
  shows "audio_input env = Some (buffer (audio_source rq))
       \<and> mimetype (audio_source rq) = ''audio/webm''
       \<and> options rq = [(''smart_format'', PBool True), (''model'', PStr ''nova-2''),
                       (''language'', PStr ''en-US'')]
       \<and> secrets env ''DEEPGRAM_API_KEY'' = Some (api_key rq)"
proof (cases "secrets env ''DEEPGRAM_API_KEY''")
  case None
  with assms show ?thesis by (simp add: app_net)
next
  case key: (Some key)
  show ?thesis
  proof (cases "audio_input env")
    case None
    with assms key show ?thesis by (simp add: app_net)
  next
    case clip: (Some clip)
    with assms key show ?thesis by (cases "button env") (simp_all add: app_net)
  qed
qed

theorem C6_witness:
  "sent_request ''k'' [1, 2] \<in> set (drop (length ([] :: request list))
      (net (snd (app (pressed ''k'' [1, 2] (\<lambda>rq. Inr (response_with (PStr ''Hello.''))))
         (fresh [])))))
   \<and> audio_input (pressed ''k'' [1, 2] (\<lambda>rq. Inr (response_with (PStr ''Hello.'')))) =
       Some (buffer (audio_source (sent_request ''k'' [1, 2])))
   \<and> options (sent_request ''k'' [1, 2]) =
       [(''smart_format'', PBool True), (''model'', PStr ''nova-2''),
        (''language'', PStr ''en-US'')]"
proof -
  let ?env = "pressed ''k'' [1, 2]
    (\<lambda>rq :: request. (Inr (response_with (PStr ''Hello.'')) :: py_exc + py_val))"
  have h: "sent_request ''k'' [1, 2] \<in>
      set (drop (length ([] :: request list)) (net (snd (app ?env (fresh [])))))"
    by (simp add: app_net secrets_def)
  from C6_request_payload [OF h] h show ?thesis by (simp add: secrets_def)
qed

subsection \<open>C7: one call per press, nothing cached\<close>

text \<open>
  C7. Every press of the button on the same clip makes exactly one call: after any
  sequence of runs in each of which the credential is present, the clip is the same and
  the button was pressed, the log has grown by one call for that clip per run, whatever
  the service answered in the runs before. Nothing of an earlier run is reused: how a
  run ends and what it shows do not depend on the calls made before it.
\<close>

theorem C7_one_call_per_press:
  assumes "\<forall>env \<in> set envs. secrets env ''DEEPGRAM_API_KEY'' = Some key
             \<and> audio_input env = Some clip \<and> button env"
  shows "net (session envs w) = net w @ replicate (length envs) (sent_request key clip)
       \<and> (\<forall>env \<in> set envs. \<forall>calls calls'.
             fst (app env (fresh calls)) = fst (app env (fresh calls'))
             \<and> ui (snd (app env (fresh calls))) = ui (snd (app env (fresh calls'))))"
proof
  show "net (session envs w) = net w @ replicate (length envs) (sent_request key clip)"
    using assms
  proof (induction envs arbitrary: w)
    case Nil
    then show ?case by simp
  next
    case (Cons env envs)
    from Cons.prems have env: "secrets env ''DEEPGRAM_API_KEY'' = Some key"
      "audio_input env = Some clip" "button env" by simp_all
    have "net (snd (app env (w\<lparr>ui := []\<rparr>))) = net w @ [sent_request key clip]"
      using app_pressed_net [OF env, of "w\<lparr>ui := []\<rparr>"] by simp
    moreover have "net (session envs (snd (app env (w\<lparr>ui := []\<rparr>)))) =
        net (snd (app env (w\<lparr>ui := []\<rparr>))) @ replicate (length envs) (sent_request key clip)"
      using Cons.IH Cons.prems by simp
    ultimately show ?case by (simp add: replicate_app_Cons_same)
  qed
next
  show "\<forall>env \<in> set envs. \<forall>calls calls'.
      fst (app env (fresh calls)) = fst (app env (fresh calls'))
      \<and> ui (snd (app env (fresh calls))) = ui (snd (app env (fresh calls')))"
  proof (intro ballI allI)
    fix env calls calls'
    have "fst (app env (fresh calls)) = fst (app env (fresh []))"
      "ui (snd (app env (fresh calls))) = ui (snd (app env (fresh [])))"
      using app_frame [of env "fresh calls"] by simp_all
    moreover have "fst (app env (fresh calls')) = fst (app env (fresh []))"
      "ui (snd (app env (fresh calls'))) = ui (snd (app env (fresh [])))"
      using app_frame [of env "fresh calls'"] by simp_all
    ultimately show "fst (app env (fresh calls)) = fst (app env (fresh calls'))
      \<and> ui (snd (app env (fresh calls))) = ui (snd (app env (fresh calls')))"
      by simp
  qed
qed

theorem C7_witness:
  "net (session [pressed ''k'' [1, 2] (\<lambda>rq. Inr (response_with (PStr ''Hello.''))),
                 pressed ''k'' [1, 2] (\<lambda>rq. Inr (response_with (PStr ''Hello again.'')))]
         (fresh [])) =
     [sent_request ''k'' [1, 2], sent_request ''k'' [1, 2]]"
proof -
  let ?e1 = "pressed ''k'' [1, 2]
    (\<lambda>rq :: request. (Inr (response_with (PStr ''Hello.'')) :: py_exc + py_val))"
  let ?e2 = "pressed ''k'' [1, 2]
    (\<lambda>rq :: request. (Inr (response_with (PStr ''Hello again.'')) :: py_exc + py_val))"
  have h: "\<forall>env \<in> set [?e1, ?e2]. secrets env ''DEEPGRAM_API_KEY'' = Some ''k''
             \<and> audio_input env = Some [1, 2] \<and> button env"
    by (simp add: secrets_def)
  from C7_one_call_per_press [OF h, where w = "fresh []"]
  have "net (session [?e1, ?e2] (fresh [])) =
      net (fresh []) @ replicate (length [?e1, ?e2]) (sent_request ''k'' [1, 2])"
    by (rule conjunct1)
  then show ?thesis by (simp add: numeral_2_eq_2)
qed

subsection \<open>C8: an empty recording\<close>

text \<open>
  C8. For the empty clip \<^verbatim>\<open>b""\<close> the client does not fail fast: the call is made,
  with the empty buffer. Whenever the service rejects it, in whatever way (it raises an
  exception of class \<^verbatim>\<open>Exception\<close>, or its response has no transcript at the path,
  or the transcript there is empty), the rejection is handled: the run ends normally,
  shows the try-again warning and no success banner, and shows the error banner of the
  exception when there was one.
\<close>

theorem C8_empty_audio_handled:
  assumes "secrets env ''DEEPGRAM_API_KEY'' = Some key"
      and "audio_input env = Some []" and "button env"
      and "\<forall>e. service env (sent_request key []) = Inl e \<longrightarrow> is_Exception e"
      and "\<forall>response t. service env (sent_request key []) = Inr response
             \<longrightarrow> transcript_of response = Inr t \<longrightarrow> \<not> truthy t"
  shows "fst (app env (fresh calls)) = Completed
       \<and> net (snd (app env (fresh calls))) = calls @ [sent_request key []]
       \<and> try_again_warning \<in> set (ui (snd (app env (fresh calls))))
       \<and> filter is_Success (ui (snd (app env (fresh calls)))) = []
       \<and> (\<forall>e. service env (sent_request key []) = Inl e
                \<or> (\<exists>response. service env (sent_request key []) = Inr response
                       \<and> transcript_of response = Inl e)
              \<longrightarrow> error_banner e \<in> set (ui (snd (app env (fresh calls)))))"
proof (cases "service env (sent_request key [])")
  case (Inl e)
  with assms(4) have exc: "is_Exception e" by blast
  have tma: "transcribe_microphone_audio (Deepgram key) (service env) (BytesIO []) w =
      (Inr PNone, w\<lparr>ui := ui w @ [sending_note, error_banner e],
                     net := net w @ [sent_request key []]\<rparr>)" for w
    using Inl exc by (simp add: tma_raised)
  show ?thesis
    using Inl by (simp add: app_pressed_returned [OF assms(1-3) tma, where calls = calls])
next
  case (Inr response)
  show ?thesis
  proof (cases "transcript_of response")
    case (Inl e)
    have tma: "transcribe_microphone_audio (Deepgram key) (service env) (BytesIO []) w =
        (Inr PNone, w\<lparr>ui := ui w @ [sending_note, error_banner e],
                       net := net w @ [sent_request key []]\<rparr>)" for w
      using Inr Inl by (simp add: tma_malformed)
    show ?thesis
      using Inr Inl
      by (simp add: app_pressed_returned [OF assms(1-3) tma, where calls = calls])
  next
    case t: (Inr t)
    with Inr assms(5) have falsy: "\<not> truthy t" by blast
    have tma: "transcribe_microphone_audio (Deepgram key) (service env) (BytesIO []) w =
        (Inr t, w\<lparr>ui := ui w @ [sending_note],
                   net := net w @ [sent_request key []]\<rparr>)" for w
      using Inr t by (simp add: tma_returned)
    show ?thesis
      using Inr t falsy
      by (simp add: app_pressed_returned [OF assms(1-3) tma, where calls = calls])
  qed
qed

theorem C8_witness:
  "fst (app (pressed ''k'' [] (\<lambda>rq. Inr (PDict [(''err_code'', PStr ''Bad Request'')])))
          (fresh [])) = Completed
   \<and> net (snd (app (pressed ''k'' []
          (\<lambda>rq. Inr (PDict [(''err_code'', PStr ''Bad Request'')]))) (fresh []))) =
       [sent_request ''k'' []]
   \<and> try_again_warning \<in> set (ui (snd (app (pressed ''k'' []
          (\<lambda>rq. Inr (PDict [(''err_code'', PStr ''Bad Request'')]))) (fresh []))))"
proof -
  let ?serv = "\<lambda>rq :: request.
    (Inr (PDict [(''err_code'', PStr ''Bad Request'')]) :: py_exc + py_val)"
  let ?env = "pressed ''k'' [] ?serv"
  have h1: "secrets ?env ''DEEPGRAM_API_KEY'' = Some ''k''"
    and h2: "audio_input ?env = Some []" and h3: "button ?env"
    and h4: "\<forall>e. service ?env (sent_request ''k'' []) = Inl e \<longrightarrow> is_Exception e"
    and h5: "\<forall>response t. service ?env (sent_request ''k'' []) = Inr response
             \<longrightarrow> transcript_of response = Inr t \<longrightarrow> \<not> truthy t"
    by (simp_all add: transcript_of_def KeyError_def secrets_def)
  from C8_empty_audio_handled [OF h1 h2 h3 h4 h5, where calls = "[]"]
  show ?thesis by simp
qed

subsection \<open>C9: the function returns for every exception of class Exception\<close>

text \<open>
  C9, as amended. For every argument (a \<^verbatim>\<open>BytesIO\<close> or not), whenever the service
  call raises no exception from outside the \<^verbatim>\<open>Exception\<close> hierarchy,
  \<^verbatim>\<open>transcribe_microphone_audio\<close> returns to its caller and propagates nothing:
  the whole body, response parsing included, is inside the \<^verbatim>\<open>except Exception\<close>
  handler. What it returns is \<^verbatim>\<open>None\<close> or the transcript found in a response of
  the service, so that it is a string or \<^verbatim>\<open>None\<close> when the transcripts of the
  service are strings, as its schema has them.
\<close>

theorem C9_total_for_class_Exception:
  assumes "\<forall>rq e. serv rq = Inl e \<longrightarrow> is_Exception e"
  shows "(\<exists>v. fst (transcribe_microphone_audio dg_client serv a w) = Inr v
            \<and> (v = PNone
               \<or> (\<exists>rq response. serv rq = Inr response \<and> transcript_of response = Inr v)))
       \<and> ((\<forall>rq response v. serv rq = Inr response \<and> transcript_of response = Inr v
               \<longrightarrow> (\<exists>s. v = PStr s))
            \<longrightarrow> fst (transcribe_microphone_audio dg_client serv a w) = Inr PNone
               \<or> (\<exists>s. fst (transcribe_microphone_audio dg_client serv a w) = Inr (PStr s)))"
proof -
  have returns: "\<exists>v. fst (transcribe_microphone_audio dg_client serv a w) = Inr v
            \<and> (v = PNone
               \<or> (\<exists>rq response. serv rq = Inr response \<and> transcript_of response = Inr v))"
  proof (cases a)
    case (Other ty)
    then show ?thesis by (simp add: tma_no_getvalue)
  next
    case (BytesIO clip)
    obtain key where dg: "dg_client = Deepgram key" by (cases dg_client)
    show ?thesis
    proof (cases "serv (sent_request key clip)")
      case (Inl e)
      with assms have "is_Exception e" by blast
      with Inl show ?thesis unfolding BytesIO dg by (simp add: tma_raised)
    next
      case (Inr response)
      show ?thesis
      proof (cases "transcript_of response")
        case (Inl e)
        with Inr show ?thesis unfolding BytesIO dg by (simp add: tma_malformed)
      next
        case t: (Inr t)
        have "fst (transcribe_microphone_audio (Deepgram key) serv (BytesIO clip) w) = Inr t"
          using Inr t by (simp add: tma_returned)
        with Inr t show ?thesis unfolding BytesIO dg by blast
      qed
    qed
  qed
  then show ?thesis by metis
qed

theorem C9_witness:
  "fst (transcribe_microphone_audio (Deepgram ''k'')
          (\<lambda>rq. Inr (response_with (PStr ''Hello.''))) (BytesIO [1, 2]) (fresh [])) =
     Inr PNone
   \<or> (\<exists>s. fst (transcribe_microphone_audio (Deepgram ''k'')
          (\<lambda>rq. Inr (response_with (PStr ''Hello.''))) (BytesIO [1, 2]) (fresh [])) =
        Inr (PStr s))"
proof -
  let ?serv = "\<lambda>rq :: request. (Inr (response_with (PStr ''Hello.'')) :: py_exc + py_val)"
  have h1: "\<forall>rq e. ?serv rq = Inl e \<longrightarrow> is_Exception e" by simp
  have h2: "\<forall>rq response v. ?serv rq = Inr response \<and> transcript_of response = Inr v
      \<longrightarrow> (\<exists>s. v = PStr s)"
    by (auto simp: transcript_of_def)
  from C9_total_for_class_Exception
    [OF h1, where dg_client = "Deepgram ''k''" and a = "BytesIO [1, 2]" and w = "fresh []"] h2
  show ?thesis by blast
qed

text \<open>
  The claim as stated, "never propagates an exception to its caller", fails for an
  exception that derives from \<^verbatim>\<open>BaseException\<close> only, such as
  \<^verbatim>\<open>asyncio.CancelledError\<close>: raised by the awaited call, it is not taken by
  \<^verbatim>\<open>except Exception\<close> and leaves the function.
\<close>

theorem C9_counterexample:
  "fst (transcribe_microphone_audio (Deepgram ''k'')
          (\<lambda>rq. Inl \<lparr>exc_class = ''CancelledError'', is_Exception = False, exc_str = []\<rparr>)
          (BytesIO [1, 2]) (fresh [])) =
     Inl \<lparr>exc_class = ''CancelledError'', is_Exception = False, exc_str = []\<rparr>"
  by (simp add: transcribe_microphone_audio_def transcribe_try_def st_def)

subsection \<open>C10: the banners of a failed and of an empty transcription\<close>

text \<open>
  C10. When the service call raises an exception (of class \<^verbatim>\<open>Exception\<close>), the
  page reports that one failure twice: the error banner with the text of the exception,
  shown inside the transcription function, followed by the try-again warning, shown by
  \<^verbatim>\<open>main\<close> for the \<^verbatim>\<open>None\<close> it got. When the service returns an empty string
  as the transcript, the warning is the only one of them. The statement lists all error,
  warning and success banners of the page in order; in both cases the only info banner
  is the note \<^verbatim>\<open>Sending audio to Deepgram ...\<close> that precedes every call.
\<close>

theorem C10_two_banners_on_exception:
  assumes "secrets env ''DEEPGRAM_API_KEY'' = Some key"
      and "audio_input env = Some clip" and "button env"
  shows "(service env (sent_request key clip) = Inl e \<and> is_Exception e \<longrightarrow>
            filter (\<lambda>x. is_Error x \<or> is_Warning x \<or> is_Success x)
              (ui (snd (app env (fresh calls)))) = [error_banner e, try_again_warning]
            \<and> filter is_Info (ui (snd (app env (fresh calls)))) = [sending_note])
       \<and> (\<forall>response. service env (sent_request key clip) = Inr response
              \<and> transcript_of response = Inr (PStr []) \<longrightarrow>
            filter (\<lambda>x. is_Error x \<or> is_Warning x \<or> is_Success x)
              (ui (snd (app env (fresh calls)))) = [try_again_warning]
            \<and> filter is_Info (ui (snd (app env (fresh calls)))) = [sending_note])"
proof (intro conjI impI allI)
  assume raised: "service env (sent_request key clip) = Inl e \<and> is_Exception e"
  have tma: "transcribe_microphone_audio (Deepgram key) (service env) (BytesIO clip) w =
      (Inr PNone, w\<lparr>ui := ui w @ [sending_note, error_banner e],
                     net := net w @ [sent_request key clip]\<rparr>)" for w
    using raised by (simp add: tma_raised)
  note page = app_pressed_returned [OF assms tma, where calls = calls]
  show "filter (\<lambda>x. is_Error x \<or> is_Warning x \<or> is_Success x)
      (ui (snd (app env (fresh calls)))) = [error_banner e, try_again_warning]"
    by (simp add: page)
  show "filter is_Info (ui (snd (app env (fresh calls)))) = [sending_note]"
    by (simp add: page)
next
  fix response
  assume empty: "service env (sent_request key clip) = Inr response
    \<and> transcript_of response = Inr (PStr [])"
  have tma: "transcribe_microphone_audio (Deepgram key) (service env) (BytesIO clip) w =
      (Inr (PStr []), w\<lparr>ui := ui w @ [sending_note],
                     net := net w @ [sent_request key clip]\<rparr>)" for w
    using empty by (simp add: tma_returned)
  note page = app_pressed_returned [OF assms tma, where calls = calls]
  show "filter (\<lambda>x. is_Error x \<or> is_Warning x \<or> is_Success x)
      (ui (snd (app env (fresh calls)))) = [try_again_warning]"
    by (simp add: page)
  show "filter is_Info (ui (snd (app env (fresh calls)))) = [sending_note]"
    by (simp add: page)
qed

theorem C10_witness:
  "filter (\<lambda>x. is_Error x \<or> is_Warning x \<or> is_Success x)
     (ui (snd (app (pressed ''k'' [1, 2]
        (\<lambda>rq. Inl \<lparr>exc_class = ''Exception'', is_Exception = True,
                    exc_str = ''DG: 401 Unauthorized''\<rparr>)) (fresh [])))) =
     [Error ''Error during transcription: DG: 401 Unauthorized'', try_again_warning]
   \<and> filter (\<lambda>x. is_Error x \<or> is_Warning x \<or> is_Success x)
     (ui (snd (app (pressed ''k'' [1, 2] (\<lambda>rq. Inr (response_with (PStr ''''))))
        (fresh [])))) = [try_again_warning]"
proof -
  let ?e = "\<lparr>exc_class = ''Exception'', is_Exception = True,
             exc_str = ''DG: 401 Unauthorized''\<rparr>"
  let ?raising = "pressed ''k'' [1, 2] (\<lambda>rq. Inl ?e)"
  let ?silent = "pressed ''k'' [1, 2]
    (\<lambda>rq :: request. (Inr (response_with (PStr '''')) :: py_exc + py_val))"
  have r1: "secrets ?raising ''DEEPGRAM_API_KEY'' = Some ''k''"
    and r2: "audio_input ?raising = Some [1, 2]" and r3: "button ?raising"
    and r4: "service ?raising (sent_request ''k'' [1, 2]) = Inl ?e \<and> is_Exception ?e"
    by (simp_all add: secrets_def)
  have s1: "secrets ?silent ''DEEPGRAM_API_KEY'' = Some ''k''"
    and s2: "audio_input ?silent = Some [1, 2]" and s3: "button ?silent"
    and s4: "service ?silent (sent_request ''k'' [1, 2]) = Inr (response_with (PStr ''''))
      \<and> transcript_of (response_with (PStr '''')) = Inr (PStr [])"
    by (simp_all add: transcript_of_def secrets_def)
  from C10_two_banners_on_exception [OF r1 r2 r3, where e = ?e and calls = "[]"] r4
  have a: "filter (\<lambda>x. is_Error x \<or> is_Warning x \<or> is_Success x)
      (ui (snd (app ?raising (fresh [])))) = [error_banner ?e, try_again_warning]"
    by blast
  from C10_two_banners_on_exception [OF s1 s2 s3, where calls = "[]"] s4
  have b: "filter (\<lambda>x. is_Error x \<or> is_Warning x \<or> is_Success x)
      (ui (snd (app ?silent (fresh [])))) = [try_again_warning]"
    by blast
  from a b show ?thesis by simp
qed

end
